theory Spec2Isabelle
  imports Complex_Main "HOL-Library.Word" "HOL-Library.Sublist"
begin

unbundle bit_operations_syntax

section \<open>The tracker package: peers (tracker/peer.go)\<close>

subsection \<open>Data\<close>

text \<open>
  Modelled from the spec: the declaration of the event constants is not among the
  sources. The spec lists the events \<open>started | stopped | completed | running/none\<close>;
  peer.go itself only names \<open>STARTED\<close> and \<open>STOPPED\<close>.
\<close>

datatype Event = STARTED | STOPPED | COMPLETED | RUNNING

text \<open>
  The announce request, with the fields that peer.go reads. Its declaration is not among
  the sources; the counters are assigned to \<open>uint64\<close> fields of the peer without a
  conversion, so they are \<open>uint64\<close>. The only use of the field \<open>IPv4\<close> is the call
  \<open>announce.IPv4.String()\<close> (Go library code), so the field holds the address as the
  text that call returns.
\<close>

record AnnounceRequest =
  PeerID :: string
  Event :: Event
  Uploaded :: "64 word"
  Downloaded :: "64 word"
  IPv4 :: string
  Port :: "64 word"
  Corrupt :: "64 word"
  Left :: "64 word"

text \<open>
  The struct \<open>Peer\<close>. The type parameter \<open>'f\<close> stands for \<open>float64\<close>, whose arithmetic
  is not modelled: values of it only come from \<open>util.EstSpeed\<close> and are only compared.
  The embedded \<open>db.Queued\<close> (declared outside the sources) and the mutex carry no field
  that peer.go reads or writes and are left out; \<open>Update\<close> holds the peer's lock from
  start to end, so it is one atomic step on the record.
\<close>

record 'f Peer =
  SpeedUP :: 'f
  SpeedDN :: 'f
  SpeedUPMax :: 'f
  SpeedDNMax :: 'f
  Uploaded :: "64 word"
  Downloaded :: "64 word"
  UploadedLast :: "64 word"
  DownloadedLast :: "64 word"
  Corrupt :: "64 word"
  IP :: string
  Port :: "64 word"
  Left :: "64 word"
  Announces :: "64 word"
  TotalTime :: "32 word"
  AnnounceLast :: "32 word"
  AnnounceFirst :: "32 word"
  New :: bool
  PeerID :: string
  Active :: bool
  Username :: string
  UserID :: "64 word"
  TorrentID :: "64 word"
  KeyPeer :: string
  KeyTimer :: string

text \<open>
  \<open>conf.Config\<close>, with the fields that peer.go reads. \<open>HNRMinBytes\<close> is compared with a
  \<open>uint64\<close> without a conversion; \<open>AnnInterval\<close> and \<open>HNRThreshold\<close> are converted
  explicitly (to \<open>uint64\<close> and \<open>uint32\<close>), so they are kept as the integers they
  denote and the conversion is written out where the code converts.
\<close>

record Configuration =
  AnnInterval :: int
  HNRMinBytes :: "64 word"
  HNRThreshold :: int

text \<open>
  What \<open>Update\<close> takes from outside peer.go: \<open>util.EstSpeed\<close> (not among the sources),
  the comparison \<open>>\<close> and the constant \<open>0\<close> of \<open>float64\<close>, and the configuration.
\<close>

record 'f ambient =
  EstSpeed :: "32 word \<Rightarrow> 32 word \<Rightarrow> 64 word \<Rightarrow> 'f"
  f64_gt :: "'f \<Rightarrow> 'f \<Rightarrow> bool"
  f64_zero :: 'f
  Config :: Configuration

subsection \<open>Update\<close>

text \<open>
  \<open>Update\<close> is written here as its successive phases. The first is the delta
  accounting of lines 53 to 72: the result is the peer with its stored counters replaced
  and the two deltas \<open>ul_diff\<close> and \<open>dl_diff\<close>, both \<open>uint64\<close>.
\<close>

definition Update_counters ::
  "'f Peer \<Rightarrow> AnnounceRequest \<Rightarrow> 'f Peer \<times> 64 word \<times> 64 word"
where
  "Update_counters peer announce =
    (let ul_diff = 0; dl_diff = 0 in
     if Event announce = STARTED then
       (peer\<lparr>Uploaded := AnnounceRequest.Uploaded announce,
             Downloaded := AnnounceRequest.Downloaded announce\<rparr>, ul_diff, dl_diff)
     else if AnnounceRequest.Uploaded announce < Uploaded peer
             \<or> AnnounceRequest.Downloaded announce < Downloaded peer then
       (peer\<lparr>Uploaded := AnnounceRequest.Uploaded announce,
             Downloaded := AnnounceRequest.Downloaded announce\<rparr>, ul_diff, dl_diff)
     else
       (let (peer, ul_diff) =
              (if AnnounceRequest.Uploaded announce \<noteq> Uploaded peer then
                 (peer\<lparr>Uploaded := AnnounceRequest.Uploaded announce\<rparr>,
                  AnnounceRequest.Uploaded announce - Uploaded peer)
               else (peer, ul_diff));
            (peer, dl_diff) =
              (if AnnounceRequest.Downloaded announce \<noteq> Downloaded peer then
                 (peer\<lparr>Downloaded := AnnounceRequest.Downloaded announce\<rparr>,
                  AnnounceRequest.Downloaded announce - Downloaded peer)
               else (peer, dl_diff))
        in (peer, ul_diff, dl_diff)))"

text \<open>
  Lines 77 to 84: the speed estimates from the deltas, and their maxima. \<open>cur_time\<close> is
  the reading of the clock (\<open>util.Unixtime()\<close>, an \<open>int32\<close>) taken at line 49.
\<close>

definition Update_speed ::
  "'f ambient \<Rightarrow> 32 word \<Rightarrow> 64 word \<Rightarrow> 64 word \<Rightarrow> 'f Peer \<Rightarrow> 'f Peer"
where
  "Update_speed amb cur_time ul_diff dl_diff peer =
    (let peer = peer\<lparr>SpeedUP := EstSpeed amb (AnnounceLast peer) cur_time ul_diff\<rparr>;
         peer = peer\<lparr>SpeedDN := EstSpeed amb (AnnounceLast peer) cur_time dl_diff\<rparr>;
         peer = (if f64_gt amb (SpeedUP peer) (SpeedUPMax peer)
                 then peer\<lparr>SpeedUPMax := SpeedUP peer\<rparr> else peer);
         peer = (if f64_gt amb (SpeedDN peer) (SpeedDNMax peer)
                 then peer\<lparr>SpeedDNMax := SpeedDN peer\<rparr> else peer)
     in peer)"

text \<open>
  Lines 86 to 93: the active time. \<open>now\<close> is the second reading of the clock, at line 88.
  \<open>int32\<close> subtraction wraps; \<open>uint64\<close> of an \<open>int32\<close> extends the sign (\<open>scast\<close>);
  \<open>uint32\<close> of a \<open>uint64\<close> truncates (\<open>ucast\<close>); \<open>+=\<close> on a \<open>uint32\<close> wraps.
\<close>

definition Update_time :: "'f ambient \<Rightarrow> 32 word \<Rightarrow> 'f Peer \<Rightarrow> 'f Peer" where
  "Update_time amb now peer =
    (if Active peer \<and> 0 <s AnnounceLast peer then
       (let time_diff = (scast (now - AnnounceLast peer) :: 64 word) in
        if time_diff < word_of_int (AnnInterval (Config amb)) * 4
        then peer\<lparr>TotalTime := TotalTime peer + ucast time_diff\<rparr>
        else peer)
     else peer)"

text \<open>
  The whole of \<open>Update\<close>, lines 46 to 98, with the two readings of the clock as
  arguments. The result is the updated peer with the two deltas it returns.
\<close>

definition Update ::
  "'f ambient \<Rightarrow> 32 word \<Rightarrow> 32 word \<Rightarrow> 'f Peer \<Rightarrow> AnnounceRequest \<Rightarrow> 'f Peer \<times> 64 word \<times> 64 word"
where
  "Update amb cur_time now peer announce =
    (let peer = peer\<lparr>PeerID := AnnounceRequest.PeerID announce\<rparr>;
         peer = peer\<lparr>Announces := Announces peer + 1\<rparr>;
         (peer, ul_diff, dl_diff) = Update_counters peer announce;
         peer = peer\<lparr>IP := IPv4 announce\<rparr>;
         peer = peer\<lparr>Port := AnnounceRequest.Port announce\<rparr>;
         peer = peer\<lparr>Corrupt := AnnounceRequest.Corrupt announce\<rparr>;
         peer = peer\<lparr>Left := AnnounceRequest.Left announce\<rparr>;
         peer = Update_speed amb cur_time ul_diff dl_diff peer;
         peer = Update_time amb now peer;
         peer = (if Event announce = STOPPED then peer\<lparr>Active := False\<rparr> else peer)
     in (peer, ul_diff, dl_diff))"

subsection \<open>Classification\<close>

definition IsHNR :: "Configuration \<Rightarrow> 'f Peer \<Rightarrow> bool" where
  "IsHNR cfg peer \<longleftrightarrow>
     HNRMinBytes cfg < Downloaded peer \<and> 0 < Left peer
     \<and> TotalTime peer < (word_of_int (HNRThreshold cfg) :: 32 word)"

definition IsSeeder :: "'f Peer \<Rightarrow> bool" where
  "IsSeeder peer \<longleftrightarrow> Left peer = 0"

subsection \<open>The compact peer encoder\<close>

text \<open>
  \<open>net.ParseIP\<close> and \<open>IP.To4\<close> are Go library code. An \<open>IP\<close> is a byte slice, \<open>nil\<close>
  being the empty one. \<open>ParseIP\<close> looks for the first \<open>.\<close> or \<open>:\<close> of the text and hands
  the text to its parser of dotted IPv4 or of IPv6 addresses; a text with neither
  character is no address and the result is \<open>nil\<close>. The two parsers are arguments.
  \<open>To4\<close> returns a 4-byte address as it is, the last four bytes of a 16-byte address
  that carries the IPv4-in-IPv6 prefix, and \<open>nil\<close> for everything else.
\<close>

definition ParseIP ::
  "(string \<Rightarrow> 8 word list) \<Rightarrow> (string \<Rightarrow> 8 word list) \<Rightarrow> string \<Rightarrow> 8 word list"
where
  "ParseIP parseIPv4 parseIPv6 s =
    (case find (\<lambda>c. c = CHR ''.'' \<or> c = CHR '':'') s of
       None \<Rightarrow> []
     | Some c \<Rightarrow> if c = CHR ''.'' then parseIPv4 s else parseIPv6 s)"

definition To4 :: "8 word list \<Rightarrow> 8 word list" where
  "To4 ip =
    (if length ip = 4 then ip
     else if length ip = 16 \<and> take 10 ip = replicate 10 0
             \<and> ip ! 10 = 0xff \<and> ip ! 11 = 0xff then drop 12 ip
     else [])"

text \<open>
  The loop of \<open>MakeCompactPeers\<close>, with the buffer \<open>out_buf\<close> as an accumulator.
  \<open>Write\<close> appends its argument to the buffer, and appends nothing when the argument is
  \<open>nil\<close>. \<open>Port\<close> is a \<open>uint64\<close>; \<open>byte\<close> keeps its low eight bits.
\<close>

fun MakeCompactPeers_loop ::
  "(string \<Rightarrow> 8 word list) \<Rightarrow> 'f Peer list \<Rightarrow> string \<Rightarrow> 8 word list \<Rightarrow> 8 word list"
where
  "MakeCompactPeers_loop parse [] skip_id out_buf = out_buf"
| "MakeCompactPeers_loop parse (peer # peers) skip_id out_buf =
    (if Port peer \<le> 0 then MakeCompactPeers_loop parse peers skip_id out_buf
     else if PeerID peer = skip_id then MakeCompactPeers_loop parse peers skip_id out_buf
     else
       (let out_buf = out_buf @ To4 (parse (IP peer));
            out_buf = out_buf @ [ucast (drop_bit 8 (Port peer)), ucast (Port peer AND 0xff)]
        in MakeCompactPeers_loop parse peers skip_id out_buf))"

definition MakeCompactPeers ::
  "(string \<Rightarrow> 8 word list) \<Rightarrow> (string \<Rightarrow> 8 word list) \<Rightarrow> 'f Peer list \<Rightarrow> string \<Rightarrow> 8 word list"
where
  "MakeCompactPeers parseIPv4 parseIPv6 peers skip_id =
     MakeCompactPeers_loop (ParseIP parseIPv4 parseIPv6) peers skip_id []"

subsection \<open>New peers\<close>

text \<open>
  \<open>MakePeer\<close> on a reply of the store that holds no values (\<open>values == nil\<close>, no
  error): the peer is the struct literal of lines 166 to 188. The clock is read twice,
  for \<open>AnnounceFirst\<close> and for \<open>AnnounceLast\<close>; the fields the literal does not name
  have Go's zero value.
\<close>

definition MakePeer_new ::
  "'f ambient \<Rightarrow> 32 word \<Rightarrow> 32 word \<Rightarrow> 64 word \<Rightarrow> string \<Rightarrow> string \<Rightarrow> 'f Peer"
where
  "MakePeer_new amb time_first time_last torrent_id info_hash peer_id =
    \<lparr>SpeedUP = f64_zero amb, SpeedDN = f64_zero amb,
     SpeedUPMax = f64_zero amb, SpeedDNMax = f64_zero amb,
     Uploaded = 0, Downloaded = 0, UploadedLast = 0, DownloadedLast = 0,
     Corrupt = 0, IP = ''127.0.0.1'', Port = 0, Left = 0, Announces = 0,
     TotalTime = 0, AnnounceLast = time_last, AnnounceFirst = time_first,
     New = False, PeerID = peer_id, Active = False, Username = [], UserID = 0,
     TorrentID = torrent_id,
     KeyPeer = ''t:p:'' @ info_hash @ '':'' @ peer_id,
     KeyTimer = ''t:ptimeout:'' @ info_hash @ '':'' @ peer_id\<rparr>"

subsection \<open>The client whitelist\<close>

text \<open>
  \<open>strings.HasPrefix\<close> of Go: the text is at least as long as the prefix and starts
  with its bytes. \<open>IsValidClient\<close> walks the whitelist of the tracker and returns at the
  first prefix that matches; its connection argument is unused.
\<close>

definition HasPrefix :: "string \<Rightarrow> string \<Rightarrow> bool" where
  "HasPrefix s pre \<longleftrightarrow> length pre \<le> length s \<and> take (length pre) s = pre"

fun IsValidClient :: "string list \<Rightarrow> string \<Rightarrow> bool" where
  "IsValidClient [] peer_id = False"
| "IsValidClient (client_prefix # Whitelist) peer_id =
    (if HasPrefix peer_id client_prefix then True else IsValidClient Whitelist peer_id)"

section \<open>The http package: the scrape handler\<close>

text \<open>
  What the handler writes to its \<open>gin.Context\<close>: a failure reply with a message code
  (the handler's error-reply helper, not among the sources), or a body with a status
  (\<open>c.String\<close>). The context is the list of the writes made so far.
\<close>

datatype 'm gin_write = Failure 'm | String nat string

record Query =
  InfoHashes :: "string list"

text \<open>
  One entry of the response dictionary: the inner \<open>bencode.Dict\<close> with its three keys.
  The values are integers of Go, kept as the integers they denote.
\<close>

record ScrapeEntry =
  complete :: int
  downloaded :: int
  incomplete :: int

text \<open>
  What \<open>scrape\<close> calls and does not define: the pre-flight checks, the parser of the
  query string, the message code, the two forms of an info hash, the torrent and peer
  stores of the tracker, the counts of a swarm, the completed counter of a torrent and
  the bencode encoder. None is among the sources; all are arguments. \<open>'s\<close> is the state
  of the tracker and its stores: a call of a store takes the state and returns the next
  one with its result, \<open>None\<close> standing for \<open>err != nil\<close>.
\<close>

record ('s, 'm, 'ih, 't, 'p) handler =
  preFlightChecks :: "'m gin_write list \<Rightarrow> 's \<Rightarrow> bool \<times> 'm gin_write list \<times> 's"
  queryStringParser :: "string \<Rightarrow> Query option"
  msgMalformedRequest :: 'm
  InfoHashFromString :: "string \<Rightarrow> 'ih"
  InfoHash_String :: "'ih \<Rightarrow> string"
  Torrents_Get :: "'ih \<Rightarrow> 's \<Rightarrow> 't option \<times> 's"
  Peers_GetN :: "'ih \<Rightarrow> nat \<Rightarrow> 's \<Rightarrow> 'p option \<times> 's"
  Counts :: "'p \<Rightarrow> int \<times> int"
  TotalCompleted :: "'t \<Rightarrow> int"
  Encode :: "(string \<rightharpoonup> ScrapeEntry) \<Rightarrow> string option"

text \<open>
  The loop of lines 35 to 53 over the requested info hashes, with the response
  dictionary \<open>resp\<close> and the state as accumulators.
\<close>

fun scrape_loop ::
  "('s, 'm, 'ih, 't, 'p) handler \<Rightarrow> string list \<Rightarrow> (string \<rightharpoonup> ScrapeEntry) \<Rightarrow> 's
   \<Rightarrow> (string \<rightharpoonup> ScrapeEntry) \<times> 's"
where
  "scrape_loop h [] resp s = (resp, s)"
| "scrape_loop h (ihStr # rest) resp s =
    (let ih = InfoHashFromString h ihStr in
     case Torrents_Get h ih s of
       (None, s) \<Rightarrow> scrape_loop h rest resp s
     | (Some torrent, s) \<Rightarrow>
        (case Peers_GetN h ih 100 s of
           (None, s) \<Rightarrow> scrape_loop h rest resp s
         | (Some peers, s) \<Rightarrow>
            (case Counts h peers of
               (seeders, leechers) \<Rightarrow>
                 scrape_loop h rest
                   (resp(InfoHash_String h ih \<mapsto>
                      \<lparr>complete = seeders,
                       downloaded = TotalCompleted h torrent,
                       incomplete = leechers\<rparr>)) s)))"

text \<open>
  The handler, lines 13 to 62: from the context and the state before the request to the
  context and the state after it. Logging is left out.
\<close>

definition scrape ::
  "('s, 'm, 'ih, 't, 'p) handler \<Rightarrow> string \<Rightarrow> 'm gin_write list \<Rightarrow> 's \<Rightarrow> 'm gin_write list \<times> 's"
where
  "scrape h RequestURI c s =
    (case preFlightChecks h c s of
       (valid, c, s) \<Rightarrow>
         if \<not> valid then (c, s)
         else
           (case queryStringParser h RequestURI of
              None \<Rightarrow> (c @ [Failure (msgMalformedRequest h)], s)
            | Some q \<Rightarrow>
                if length (InfoHashes q) = 0 then (c @ [Failure (msgMalformedRequest h)], s)
                else
                  (case scrape_loop h (InfoHashes q) Map.empty s of
                     (resp, s) \<Rightarrow>
                       (case Encode h resp of
                          None \<Rightarrow> (c, s)
                        | Some encoded \<Rightarrow> (c @ [String 200 encoded], s)))))"

section \<open>Example values\<close>

text \<open>
  Modelled from the spec: \<open>util.EstSpeed\<close> is not among the sources. Section 4.2 of the
  spec has it return zero when the elapsed time is not positive, and the delta divided
  by the elapsed seconds otherwise. It is written here over the reals, without the
  rounding of \<open>float64\<close>, and only serves as the instance of the examples: every
  theorem about \<open>Update\<close> below holds for any \<open>EstSpeed\<close>.
\<close>

definition EstSpeed_spec :: "32 word \<Rightarrow> 32 word \<Rightarrow> 64 word \<Rightarrow> real" where
  "EstSpeed_spec last_time cur_time delta =
    (if sint cur_time - sint last_time \<le> 0 then 0
     else real_of_int (uint delta) / real_of_int (sint cur_time - sint last_time))"

text \<open>
  An environment, a new peer and announces for the examples: an announce interval of
  300 seconds, and the hit-and-run thresholds of 1000 bytes and 3600 seconds.
\<close>

definition example_ambient :: "real ambient" where
  "example_ambient =
    \<lparr>EstSpeed = EstSpeed_spec, f64_gt = (\<lambda>x y. y < x), f64_zero = 0,
     Config = \<lparr>AnnInterval = 300, HNRMinBytes = 1000, HNRThreshold = 3600\<rparr>\<rparr>"

definition example_peer :: "real Peer" where
  "example_peer = MakePeer_new example_ambient 1000 1000 7 ''ih'' ''-AZ2060-abcdefghijkl''"

definition example_announce :: "Event \<Rightarrow> 64 word \<Rightarrow> 64 word \<Rightarrow> AnnounceRequest" where
  "example_announce e up dn =
    \<lparr>AnnounceRequest.PeerID = ''-AZ2060-abcdefghijkl'', AnnounceRequest.Event = e,
     AnnounceRequest.Uploaded = up, AnnounceRequest.Downloaded = dn,
     AnnounceRequest.IPv4 = ''10.0.0.1'', AnnounceRequest.Port = 6881,
     AnnounceRequest.Corrupt = 0, AnnounceRequest.Left = 500\<rparr>"

text \<open>
  A handler for the examples. Its state counts with \<open>tick\<close> the calls of the two
  stores: with \<open>Suc\<close> every call shows in the state, with the identity the stores only
  read. The torrents \<open>a\<close> and \<open>b\<close> are known, with 7 and 3 completed downloads; every
  swarm has one seeder and two leechers, but the peers of the info hash \<open>failing\<close> cannot
  be fetched. The two forms of an info hash are the text itself. The encoder stands for
  bencode: it writes, between \<open>d\<close> and \<open>e\<close>, the keys among \<open>a\<close>, \<open>b\<close>, \<open>c\<close> that the
  dictionary holds.
\<close>

definition example_handler ::
  "(nat \<Rightarrow> nat) \<Rightarrow> string \<Rightarrow> (nat, string, string, int, int \<times> int) handler"
where
  "example_handler tick failing =
    \<lparr>preFlightChecks = (\<lambda>c s. (True, c, s)),
     queryStringParser =
       (\<lambda>uri. if uri = ''/scrape'' then Some \<lparr>InfoHashes = []\<rparr>
              else if uri = ''/scrape?info_hash=a&info_hash=b&info_hash=c''
              then Some \<lparr>InfoHashes = [''a'', ''b'', ''c'']\<rparr>
              else None),
     msgMalformedRequest = ''Malformed request'',
     InfoHashFromString = (\<lambda>x. x),
     InfoHash_String = (\<lambda>x. x),
     Torrents_Get =
       (\<lambda>ih s. (if ih = ''a'' then Some 7 else if ih = ''b'' then Some 3 else None, tick s)),
     Peers_GetN = (\<lambda>ih n s. (if ih = failing then None else Some (1, 2), tick s)),
     Counts = (\<lambda>p. p),
     TotalCompleted = (\<lambda>t. t),
     Encode =
       (\<lambda>resp. Some (''d'' @ concat (filter (\<lambda>k. resp k \<noteq> None) [''a'', ''b'', ''c'']) @ ''e''))\<rparr>"

section \<open>Properties of Update\<close>

subsection \<open>The phases\<close>

lemma Update_counters_frame:
  "AnnounceLast (fst (Update_counters p a)) = AnnounceLast p"
  "AnnounceFirst (fst (Update_counters p a)) = AnnounceFirst p"
  "UserID (fst (Update_counters p a)) = UserID p"
  "Username (fst (Update_counters p a)) = Username p"
  "TorrentID (fst (Update_counters p a)) = TorrentID p"
  "Active (fst (Update_counters p a)) = Active p"
  "TotalTime (fst (Update_counters p a)) = TotalTime p"
  by (simp_all add: Update_counters_def Let_def split_def)

lemma Update_counters_stored:
  "Uploaded (fst (Update_counters p a)) = AnnounceRequest.Uploaded a"
  "Downloaded (fst (Update_counters p a)) = AnnounceRequest.Downloaded a"
  by (simp_all add: Update_counters_def Let_def split_def)

lemma Update_counters_deltas:
  "fst (snd (Update_counters p a)) =
     (if Event a = STARTED \<or> AnnounceRequest.Uploaded a < Uploaded p
         \<or> AnnounceRequest.Downloaded a < Downloaded p
      then 0 else AnnounceRequest.Uploaded a - Uploaded p)"
  "snd (snd (Update_counters p a)) =
     (if Event a = STARTED \<or> AnnounceRequest.Uploaded a < Uploaded p
         \<or> AnnounceRequest.Downloaded a < Downloaded p
      then 0 else AnnounceRequest.Downloaded a - Downloaded p)"
  by (simp_all add: Update_counters_def Let_def split_def)

lemma Update_speed_frame:
  "AnnounceLast (Update_speed amb t u d p) = AnnounceLast p"
  "AnnounceFirst (Update_speed amb t u d p) = AnnounceFirst p"
  "UserID (Update_speed amb t u d p) = UserID p"
  "Username (Update_speed amb t u d p) = Username p"
  "TorrentID (Update_speed amb t u d p) = TorrentID p"
  "Active (Update_speed amb t u d p) = Active p"
  "TotalTime (Update_speed amb t u d p) = TotalTime p"
  "Uploaded (Update_speed amb t u d p) = Uploaded p"
  "Downloaded (Update_speed amb t u d p) = Downloaded p"
  by (simp_all add: Update_speed_def Let_def)

lemma Update_time_frame:
  "AnnounceLast (Update_time amb t p) = AnnounceLast p"
  "AnnounceFirst (Update_time amb t p) = AnnounceFirst p"
  "UserID (Update_time amb t p) = UserID p"
  "Username (Update_time amb t p) = Username p"
  "TorrentID (Update_time amb t p) = TorrentID p"
  "Active (Update_time amb t p) = Active p"
  "Uploaded (Update_time amb t p) = Uploaded p"
  "Downloaded (Update_time amb t p) = Downloaded p"
  by (simp_all add: Update_time_def Let_def)

lemma Update_time_TotalTime:
  "TotalTime (Update_time amb now p) =
     (if Active p \<and> 0 <s AnnounceLast p
         \<and> (scast (now - AnnounceLast p) :: 64 word) < word_of_int (AnnInterval (Config amb)) * 4
      then TotalTime p + ucast (scast (now - AnnounceLast p) :: 64 word)
      else TotalTime p)"
  by (simp add: Update_time_def Let_def)

lemmas Update_phases =
  Update_counters_frame Update_counters_stored Update_speed_frame Update_time_frame

subsection \<open>The fields and the deltas after Update\<close>

lemma Update_ul_diff:
  "fst (snd (Update amb cur_time now p a)) =
     (if Event a = STARTED \<or> AnnounceRequest.Uploaded a < Uploaded p
         \<or> AnnounceRequest.Downloaded a < Downloaded p
      then 0 else AnnounceRequest.Uploaded a - Uploaded p)"
  by (simp add: Update_def Let_def split_def Update_counters_deltas)

lemma Update_dl_diff:
  "snd (snd (Update amb cur_time now p a)) =
     (if Event a = STARTED \<or> AnnounceRequest.Uploaded a < Uploaded p
         \<or> AnnounceRequest.Downloaded a < Downloaded p
      then 0 else AnnounceRequest.Downloaded a - Downloaded p)"
  by (simp add: Update_def Let_def split_def Update_counters_deltas)

lemma Update_stored:
  "Uploaded (fst (Update amb cur_time now p a)) = AnnounceRequest.Uploaded a"
  "Downloaded (fst (Update amb cur_time now p a)) = AnnounceRequest.Downloaded a"
  by (simp_all add: Update_def Let_def split_def Update_phases)

lemma Update_Active:
  "Active (fst (Update amb cur_time now p a)) \<longleftrightarrow> Active p \<and> Event a \<noteq> STOPPED"
  by (simp add: Update_def Let_def split_def Update_phases)

lemma Update_TotalTime:
  "TotalTime (fst (Update amb cur_time now p a)) =
     (if Active p \<and> 0 <s AnnounceLast p
         \<and> (scast (now - AnnounceLast p) :: 64 word) < word_of_int (AnnInterval (Config amb)) * 4
      then TotalTime p + ucast (scast (now - AnnounceLast p) :: 64 word)
      else TotalTime p)"
  by (simp add: Update_def Let_def split_def Update_phases Update_time_TotalTime)

subsection \<open>What Update leaves alone\<close>

text \<open>
  C9. For every announce request, \<open>Update\<close> leaves the fields \<open>AnnounceLast\<close>,
  \<open>AnnounceFirst\<close>, \<open>UserID\<close>, \<open>Username\<close> and \<open>TorrentID\<close> of the peer unchanged. In
  particular it does not refresh the last-announce timestamp that its speed and elapsed
  time computations read: the caller has to maintain it.
\<close>

theorem Update_frame:
  "AnnounceLast (fst (Update amb cur_time now peer announce)) = AnnounceLast peer
   \<and> AnnounceFirst (fst (Update amb cur_time now peer announce)) = AnnounceFirst peer
   \<and> UserID (fst (Update amb cur_time now peer announce)) = UserID peer
   \<and> Username (fst (Update amb cur_time now peer announce)) = Username peer
   \<and> TorrentID (fst (Update amb cur_time now peer announce)) = TorrentID peer"
  by (simp add: Update_def Let_def split_def Update_phases)

text \<open>
  A new peer created at time 1000 for torrent 7 announces at time 1060: its timestamps
  are still 1000 afterwards.
\<close>

theorem Update_frame_witness:
  "AnnounceLast (fst (Update example_ambient 1060 1060 example_peer (example_announce STARTED 100 0))) = 1000
   \<and> AnnounceFirst (fst (Update example_ambient 1060 1060 example_peer (example_announce STARTED 100 0))) = 1000
   \<and> TorrentID (fst (Update example_ambient 1060 1060 example_peer (example_announce STARTED 100 0))) = 7"
  using Update_frame [of example_ambient 1060 1060 example_peer "example_announce STARTED 100 0"]
  by (simp add: example_peer_def MakePeer_new_def)

text \<open>
  C10. \<open>Update\<close> never sets the flag \<open>Active\<close>: after it the peer is active exactly when
  it was active before and the event is not \<open>STOPPED\<close>. So a peer that is not active
  before \<open>Update\<close> is not active after it, whatever the event, \<open>STARTED\<close> included.
\<close>

theorem Update_never_activates:
  "(Active (fst (Update amb cur_time now peer announce))
      \<longleftrightarrow> Active peer \<and> Event announce \<noteq> STOPPED)
   \<and> (\<not> Active peer \<longrightarrow> \<not> Active (fst (Update amb cur_time now peer announce)))"
  by (simp add: Update_Active)

text \<open>A new peer is not active, and stays so after a started and after a running announce.\<close>

theorem Update_never_activates_witness:
  "\<not> Active example_peer
   \<and> \<not> Active (fst (Update example_ambient 1060 1060 example_peer (example_announce STARTED 100 0)))
   \<and> \<not> Active (fst (Update example_ambient 1060 1060 example_peer (example_announce RUNNING 100 0)))"
  using Update_never_activates [of example_ambient 1060 1060 example_peer "example_announce STARTED 100 0"]
    Update_never_activates [of example_ambient 1060 1060 example_peer "example_announce RUNNING 100 0"]
  by (simp add: example_peer_def MakePeer_new_def)

subsection \<open>Restart detection\<close>

text \<open>
  C4. For every peer and every announce whose reported uploaded is below the stored
  uploaded, or whose reported downloaded is below the stored downloaded, \<open>Update\<close>
  stores the reported values as the new baseline and returns the deltas \<open>(0, 0)\<close>. For
  every input the deltas are never negative: each delta, read as an integer, is zero on
  a baseline (event \<open>STARTED\<close> or a counter that went down) and is otherwise the
  difference of the reported and the stored value, which is not negative there, so the
  unsigned subtraction never wraps.
\<close>

theorem Update_restart_resets:
  "(AnnounceRequest.Uploaded announce < Uploaded peer
      \<or> AnnounceRequest.Downloaded announce < Downloaded peer
    \<longrightarrow> Uploaded (fst (Update amb cur_time now peer announce)) = AnnounceRequest.Uploaded announce
        \<and> Downloaded (fst (Update amb cur_time now peer announce)) = AnnounceRequest.Downloaded announce
        \<and> snd (Update amb cur_time now peer announce) = (0, 0))
   \<and> uint (fst (snd (Update amb cur_time now peer announce)))
       = (if Event announce = STARTED \<or> AnnounceRequest.Uploaded announce < Uploaded peer
             \<or> AnnounceRequest.Downloaded announce < Downloaded peer
          then 0 else uint (AnnounceRequest.Uploaded announce) - uint (Uploaded peer))
   \<and> uint (snd (snd (Update amb cur_time now peer announce)))
       = (if Event announce = STARTED \<or> AnnounceRequest.Uploaded announce < Uploaded peer
             \<or> AnnounceRequest.Downloaded announce < Downloaded peer
          then 0 else uint (AnnounceRequest.Downloaded announce) - uint (Downloaded peer))
   \<and> 0 \<le> uint (fst (snd (Update amb cur_time now peer announce)))
   \<and> 0 \<le> uint (snd (snd (Update amb cur_time now peer announce)))"
proof -
  let ?r = "Update amb cur_time now peer announce"
  have reset: "snd ?r = (0, 0)"
    if "AnnounceRequest.Uploaded announce < Uploaded peer
        \<or> AnnounceRequest.Downloaded announce < Downloaded peer"
    using that by (simp add: prod_eq_iff Update_ul_diff Update_dl_diff)
  have ul: "uint (AnnounceRequest.Uploaded announce - Uploaded peer)
      = uint (AnnounceRequest.Uploaded announce) - uint (Uploaded peer)"
    if "\<not> AnnounceRequest.Uploaded announce < Uploaded peer"
    using that by (simp add: uint_sub_if' word_less_def not_less word_le_def)
  have dl: "uint (AnnounceRequest.Downloaded announce - Downloaded peer)
      = uint (AnnounceRequest.Downloaded announce) - uint (Downloaded peer)"
    if "\<not> AnnounceRequest.Downloaded announce < Downloaded peer"
    using that by (simp add: uint_sub_if' word_less_def not_less word_le_def)
  show ?thesis
    using reset ul dl by (simp add: Update_stored Update_ul_diff Update_dl_diff)
qed

text \<open>
  A peer with 150 stored as uploaded receives a running announce that reports 140: the
  stored value becomes 140 and both deltas are zero.
\<close>

theorem Update_restart_resets_witness:
  "AnnounceRequest.Uploaded (example_announce RUNNING 140 0) < Uploaded (example_peer\<lparr>Uploaded := 150\<rparr>)
   \<and> Uploaded (fst (Update example_ambient 1060 1060 (example_peer\<lparr>Uploaded := 150\<rparr>) (example_announce RUNNING 140 0))) = 140
   \<and> snd (Update example_ambient 1060 1060 (example_peer\<lparr>Uploaded := 150\<rparr>) (example_announce RUNNING 140 0)) = (0, 0)"
  using Update_restart_resets [of "example_announce RUNNING 140 0" "example_peer\<lparr>Uploaded := 150\<rparr>" example_ambient 1060 1060]
  by (simp add: example_peer_def MakePeer_new_def example_announce_def)

subsection \<open>Active time\<close>

lemma ucast_scast_32: "(ucast (scast (x :: 32 word) :: 64 word) :: 32 word) = x"
  by (rule bit_word_eqI) (auto simp: bit_simps)

lemma sint_sub_32:
  fixes now last :: "32 word"
  assumes "0 <s last" "last \<le>s now"
  shows "sint (now - last) = sint now - sint last"
proof -
  have l: "0 < sint last" using assms(1) by (simp add: word_sless_alt)
  have n: "sint last \<le> sint now" using assms(2) by (simp add: word_sle_eq)
  have b: "sint now < 2 ^ 31" using sint_lt [of now] by simp
  have "sint (now - last) = signed_take_bit 31 (sint now - sint last)"
    by (simp add: sint_word_diff)
  also have "\<dots> = sint now - sint last"
    using l n b by (intro signed_take_bit_int_eq_self) auto
  finally show ?thesis .
qed

lemma uint_scast_64:
  fixes x :: "32 word"
  assumes "0 \<le> sint x"
  shows "uint (scast x :: 64 word) = sint x"
proof -
  have b: "sint x < 2 ^ 31" using sint_lt [of x] by simp
  have "uint (scast x :: 64 word) = take_bit 64 (sint x)"
    by (simp only: scast_eq uint_word_of_int_eq len_bit0 len_num1, simp)
  also have "\<dots> = sint x"
    using assms b by (simp add: take_bit_int_eq_self)
  finally show ?thesis .
qed

lemma uint_ceiling:
  assumes "0 \<le> (a::int)" "a < 2 ^ 62"
  shows "uint (word_of_int a * 4 :: 64 word) = 4 * a"
proof -
  have "uint (word_of_int a * 4 :: 64 word) = take_bit 64 (a * 4)"
    by (simp add: uint_word_of_int_eq uint_word_ariths take_bit_eq_mod mod_mult_left_eq)
  also have "\<dots> = a * 4"
    using assms by (simp add: take_bit_int_eq_self)
  finally show ?thesis by simp
qed

lemma elapsed_below_ceiling:
  fixes now last :: "32 word"
  assumes "0 <s last" "last \<le>s now" "0 \<le> a" "a < 2 ^ 62"
  shows "(scast (now - last) :: 64 word) < word_of_int a * 4 \<longleftrightarrow> sint now - sint last < 4 * a"
proof -
  have d: "sint (now - last) = sint now - sint last"
    using assms(1,2) by (rule sint_sub_32)
  have "0 \<le> sint now - sint last" using assms(2) by (simp add: word_sle_eq)
  then have "uint (scast (now - last) :: 64 word) = sint now - sint last"
    using d uint_scast_64 [of "now - last"] by simp
  then show ?thesis
    using uint_ceiling [OF assms(3,4)] by (simp add: word_less_def)
qed

text \<open>
  C5. During \<open>Update\<close> the time elapsed since the previous announce is added to the
  cumulative active seconds \<open>TotalTime\<close> exactly when the peer was already active, its
  previous announce timestamp is positive, and the elapsed time is below the ceiling of
  four announce intervals; elapsed time at or above the ceiling is discarded. The first
  part is on the machine integers of the code. The second reads it on the integers, when
  the clock has not gone back and the interval is not negative: the elapsed time is
  \<open>now - AnnounceLast\<close> and the ceiling is \<open>4 * AnnInterval\<close>.
\<close>

theorem Update_active_time:
  "TotalTime (fst (Update amb cur_time now peer announce)) =
     (let elapsed = (scast (now - AnnounceLast peer) :: 64 word);
          ceiling = (word_of_int (AnnInterval (Config amb)) * 4 :: 64 word)
      in if Active peer \<and> 0 <s AnnounceLast peer \<and> elapsed < ceiling
         then TotalTime peer + ucast elapsed
         else TotalTime peer)
   \<and> (0 <s AnnounceLast peer \<and> AnnounceLast peer \<le>s now
        \<and> 0 \<le> AnnInterval (Config amb) \<and> AnnInterval (Config amb) < 2 ^ 62
      \<longrightarrow> TotalTime (fst (Update amb cur_time now peer announce)) =
            (if Active peer \<and> sint now - sint (AnnounceLast peer) < 4 * AnnInterval (Config amb)
             then TotalTime peer + word_of_int (sint now - sint (AnnounceLast peer))
             else TotalTime peer))"
proof (intro conjI impI)
  show "TotalTime (fst (Update amb cur_time now peer announce)) =
     (let elapsed = (scast (now - AnnounceLast peer) :: 64 word);
          ceiling = (word_of_int (AnnInterval (Config amb)) * 4 :: 64 word)
      in if Active peer \<and> 0 <s AnnounceLast peer \<and> elapsed < ceiling
         then TotalTime peer + ucast elapsed
         else TotalTime peer)"
    by (simp add: Update_TotalTime Let_def)
next
  assume a: "0 <s AnnounceLast peer \<and> AnnounceLast peer \<le>s now
        \<and> 0 \<le> AnnInterval (Config amb) \<and> AnnInterval (Config amb) < 2 ^ 62"
  then have c: "(scast (now - AnnounceLast peer) :: 64 word) < word_of_int (AnnInterval (Config amb)) * 4
      \<longleftrightarrow> sint now - sint (AnnounceLast peer) < 4 * AnnInterval (Config amb)"
    by (intro elapsed_below_ceiling) simp_all
  have "(word_of_int (sint now - sint (AnnounceLast peer)) :: 32 word) = now - AnnounceLast peer"
    by simp
  then show "TotalTime (fst (Update amb cur_time now peer announce)) =
            (if Active peer \<and> sint now - sint (AnnounceLast peer) < 4 * AnnInterval (Config amb)
             then TotalTime peer + word_of_int (sint now - sint (AnnounceLast peer))
             else TotalTime peer)"
    using a c by (simp add: Update_TotalTime ucast_scast_32)
qed

text \<open>
  With an interval of 300 seconds, an active peer last seen at 1000 with 5 active
  seconds has 65 after an announce at 1060, still 5 after one at 2200 (1200 seconds are
  not below the ceiling), and still 5 when it was not active or had no previous
  timestamp.
\<close>

theorem Update_active_time_witness:
  "TotalTime (fst (Update example_ambient 1060 1060 (example_peer\<lparr>Active := True, TotalTime := 5\<rparr>) (example_announce RUNNING 100 0))) = 65
   \<and> TotalTime (fst (Update example_ambient 2200 2200 (example_peer\<lparr>Active := True, TotalTime := 5\<rparr>) (example_announce RUNNING 100 0))) = 5
   \<and> TotalTime (fst (Update example_ambient 1060 1060 (example_peer\<lparr>Active := False, TotalTime := 5\<rparr>) (example_announce RUNNING 100 0))) = 5
   \<and> TotalTime (fst (Update example_ambient 1060 1060 (example_peer\<lparr>Active := True, TotalTime := 5, AnnounceLast := 0\<rparr>) (example_announce RUNNING 100 0))) = 5"
  using Update_active_time [of example_ambient 1060 1060 "example_peer\<lparr>Active := True, TotalTime := 5\<rparr>" "example_announce RUNNING 100 0"]
    Update_active_time [of example_ambient 2200 2200 "example_peer\<lparr>Active := True, TotalTime := 5\<rparr>" "example_announce RUNNING 100 0"]
    Update_active_time [of example_ambient 1060 1060 "example_peer\<lparr>Active := False, TotalTime := 5\<rparr>" "example_announce RUNNING 100 0"]
    Update_active_time [of example_ambient 1060 1060 "example_peer\<lparr>Active := True, TotalTime := 5, AnnounceLast := 0\<rparr>" "example_announce RUNNING 100 0"]
  by (simp add: example_peer_def MakePeer_new_def example_ambient_def Let_def word_sless_alt)

subsection \<open>Delta accounting over three announces\<close>

text \<open>
  C2, as the code has it. Starting from a new peer, three successive announces that
  report uploaded 100 with the event \<open>STARTED\<close>, then 150, then 140 (the second and
  third with another event, the second not reporting less downloaded than the first)
  make \<open>Update\<close> return the uploaded deltas 0, then 50, then 0: the started announce
  only sets the baseline, and the decrease resets it.
\<close>

theorem Update_three_announces:
  assumes "Event a1 = STARTED" and "AnnounceRequest.Uploaded a1 = 100"
    and "Event a2 \<noteq> STARTED" and "AnnounceRequest.Uploaded a2 = 150"
    and "AnnounceRequest.Downloaded a1 \<le> AnnounceRequest.Downloaded a2"
    and "Event a3 \<noteq> STARTED" and "AnnounceRequest.Uploaded a3 = 140"
  shows
    "(let (p1, u1, d1) = Update amb c1 n1 (MakePeer_new amb t_first t_last torrent_id info_hash peer_id) a1;
          (p2, u2, d2) = Update amb c2 n2 p1 a2;
          (p3, u3, d3) = Update amb c3 n3 p2 a3
      in [u1, u2, u3] = [0, 50, 0])"
  using assms
  by (simp add: split_def Update_ul_diff Update_stored not_less [symmetric])

theorem Update_three_announces_witness:
  "(let (p1, u1, d1) = Update example_ambient 1000 1000 example_peer (example_announce STARTED 100 0);
        (p2, u2, d2) = Update example_ambient 1060 1060 p1 (example_announce RUNNING 150 0);
        (p3, u3, d3) = Update example_ambient 1120 1120 p2 (example_announce RUNNING 140 0)
    in [u1, u2, u3] = [0, 50, 0])"
  using Update_three_announces [of "example_announce STARTED 100 0" "example_announce RUNNING 150 0"
      "example_announce RUNNING 140 0" example_ambient 1000 1000 1000 1000 7 "''ih''"
      "''-AZ2060-abcdefghijkl''" 1060 1060 1120 1120]
  by (simp add: example_peer_def example_announce_def)

text \<open>
  The first of the three deltas is not 100: on the started announce that reports 100
  uploaded, \<open>Update\<close> returns 0 for a new peer.
\<close>

theorem Update_started_delta_counterexample:
  "fst (snd (Update example_ambient 1000 1000 example_peer (example_announce STARTED 100 0))) = 0
   \<and> fst (snd (Update example_ambient 1000 1000 example_peer (example_announce STARTED 100 0))) \<noteq> 100"
  by (simp add: Update_ul_diff example_announce_def)

section \<open>Properties of the classification\<close>

text \<open>
  C1, as the code has it. \<open>IsHNR\<close> is true if and only if the downloaded bytes of the
  peer are strictly greater than the configured minimum, its bytes left are strictly
  greater than 0, and its cumulative active seconds are strictly less than the
  configured maximum as the code converts it to \<open>uint32\<close>, which is the maximum itself
  when it lies between 0 and \<open>2 ^ 32 - 1\<close>.
\<close>

theorem IsHNR_iff:
  "IsHNR cfg peer \<longleftrightarrow>
     uint (HNRMinBytes cfg) < uint (Downloaded peer)
     \<and> 0 < uint (Left peer)
     \<and> uint (TotalTime peer) < HNRThreshold cfg mod 2 ^ 32"
  by (simp add: IsHNR_def word_less_def uint_word_of_int)

text \<open>
  With a minimum of 1000 bytes and a maximum of 3600 seconds: 1001 bytes downloaded,
  500 left and 65 seconds is a hit and run; nothing left, or 3600 seconds, is not.
\<close>

theorem IsHNR_iff_witness:
  "IsHNR (Config example_ambient) (example_peer\<lparr>Downloaded := 1001, Left := 500, TotalTime := 65\<rparr>)
   \<and> \<not> IsHNR (Config example_ambient) (example_peer\<lparr>Downloaded := 1001, Left := 0, TotalTime := 65\<rparr>)
   \<and> \<not> IsHNR (Config example_ambient) (example_peer\<lparr>Downloaded := 1001, Left := 500, TotalTime := 3600\<rparr>)"
  using IsHNR_iff [of "Config example_ambient" "example_peer\<lparr>Downloaded := 1001, Left := 500, TotalTime := 65\<rparr>"]
    IsHNR_iff [of "Config example_ambient" "example_peer\<lparr>Downloaded := 1001, Left := 0, TotalTime := 65\<rparr>"]
    IsHNR_iff [of "Config example_ambient" "example_peer\<lparr>Downloaded := 1001, Left := 500, TotalTime := 3600\<rparr>"]
  by (simp add: example_ambient_def)

text \<open>
  A peer that has downloaded exactly the minimum, with bytes left and active seconds
  below the maximum, is not classified as a hit and run.
\<close>

theorem IsHNR_minimum_counterexample:
  "HNRMinBytes (Config example_ambient) \<le> Downloaded (example_peer\<lparr>Downloaded := 1000, Left := 500, TotalTime := 65\<rparr>)
   \<and> 0 < Left (example_peer\<lparr>Downloaded := 1000, Left := 500, TotalTime := 65\<rparr>)
   \<and> uint (TotalTime (example_peer\<lparr>Downloaded := 1000, Left := 500, TotalTime := 65\<rparr>))
        < HNRThreshold (Config example_ambient)
   \<and> \<not> IsHNR (Config example_ambient) (example_peer\<lparr>Downloaded := 1000, Left := 500, TotalTime := 65\<rparr>)"
  by (simp add: IsHNR_def example_ambient_def)

section \<open>Properties of the whitelist\<close>

lemma HasPrefix_prefix: "HasPrefix s pre \<longleftrightarrow> prefix pre s"
proof
  assume "HasPrefix s pre"
  then have "take (length pre) s = pre" by (simp add: HasPrefix_def)
  then show "prefix pre s" by (metis take_is_prefix)
next
  assume "prefix pre s"
  then obtain zs where "s = pre @ zs" by (auto simp: prefix_def)
  then show "HasPrefix s pre" by (simp add: HasPrefix_def)
qed

text \<open>
  C8. For every peer id and every whitelist, \<open>IsValidClient\<close> is true if and only if at
  least one prefix of the whitelist is a literal prefix of the peer id: the bytes are
  compared as they are, with no normalisation and no case folding.
\<close>

theorem IsValidClient_iff:
  "IsValidClient Whitelist peer_id \<longleftrightarrow> (\<exists>client_prefix \<in> set Whitelist. prefix client_prefix peer_id)"
  by (induction Whitelist) (simp_all add: HasPrefix_prefix)

text \<open>
  With the whitelist \<open>-UT\<close>, \<open>-AZ\<close>: the peer id \<open>-AZ2060-...\<close> matches, \<open>-XX0001-...\<close>
  does not, and neither does \<open>-az2060-...\<close>.
\<close>

theorem IsValidClient_iff_witness:
  "IsValidClient [''-UT'', ''-AZ''] ''-AZ2060-abcdefghijkl''
   \<and> \<not> IsValidClient [''-UT'', ''-AZ''] ''-XX0001-abcdefghijkl''
   \<and> \<not> IsValidClient [''-UT'', ''-AZ''] ''-az2060-abcdefghijkl''"
  using IsValidClient_iff [of "[''-UT'', ''-AZ'']" "''-AZ2060-abcdefghijkl''"]
    IsValidClient_iff [of "[''-UT'', ''-AZ'']" "''-XX0001-abcdefghijkl''"]
    IsValidClient_iff [of "[''-UT'', ''-AZ'']" "''-az2060-abcdefghijkl''"]
  by (simp add: HasPrefix_def)

section \<open>Properties of the compact peer encoder\<close>

text \<open>
  When the stored address of every peer that is kept parses to an IPv4 address, every
  peer contributes six bytes.
\<close>

lemma MakeCompactPeers_loop_IPv4:
  assumes "\<forall>p \<in> set peers. Port p \<noteq> 0 \<and> PeerID p \<noteq> skip_id \<longrightarrow> length (To4 (parse (IP p))) = 4"
    and "6 dvd length out_buf"
  shows "6 dvd length (MakeCompactPeers_loop parse peers skip_id out_buf)"
  using assms
proof (induction peers arbitrary: out_buf)
  case Nil
  then show ?case by simp
next
  case (Cons p peers)
  show ?case
  proof (cases "Port p \<le> 0 \<or> PeerID p = skip_id")
    case True
    then show ?thesis using Cons by auto
  next
    case False
    then have "length (To4 (parse (IP p))) = 4" using Cons.prems(1) by auto
    then have "6 dvd length (out_buf @ To4 (parse (IP p))
        @ [ucast (drop_bit 8 (Port p)), ucast (Port p AND 0xff)])"
      using Cons.prems(2) by simp
    then show ?thesis using False Cons by (simp add: Let_def)
  qed
qed

text \<open>
  C3. The claim is that the length of the result of \<open>MakeCompactPeers\<close> is a multiple
  of 6 for every list of peers, also when a stored address is not a valid IPv4 address.
  The code does not check the result of \<open>To4\<close>: for a peer whose stored address is the
  text \<open><nil>\<close> (what \<open>String\<close> gives for an announce without an address) nothing is
  written for the address and the two bytes of the port are still written. With the port
  6881 the result is the two bytes \<open>0x1a 0xe1\<close>, whatever the two parsers are.
\<close>

theorem MakeCompactPeers_non_IPv4:
  "MakeCompactPeers parseIPv4 parseIPv6 [example_peer\<lparr>IP := ''<nil>'', Port := 6881\<rparr>] ''-UT0001-abcdefghijkl''
     = [26, 225]
   \<and> length (MakeCompactPeers parseIPv4 parseIPv6 [example_peer\<lparr>IP := ''<nil>'', Port := 6881\<rparr>]
        ''-UT0001-abcdefghijkl'') mod 6 = 2"
  by (simp add: MakeCompactPeers_def ParseIP_def To4_def example_peer_def MakePeer_new_def)

section \<open>Properties of the scrape handler\<close>

subsection \<open>The empty query\<close>

text \<open>
  C6. A scrape request that passes the pre-flight checks and whose parsed sequence of
  info hashes is empty is rejected with the malformed-request failure reply before any
  lookup in the torrent registry: the state after the handler is the state that the
  pre-flight checks left, and the outcome is the same whatever the two stores would have
  done, so the handler calls neither of them and changes no state.
\<close>

theorem scrape_empty_rejected:
  assumes "preFlightChecks h c s = (True, c', s')"
    and "queryStringParser h RequestURI = Some q"
    and "InfoHashes q = []"
  shows "scrape h RequestURI c s = (c' @ [Failure (msgMalformedRequest h)], s')
    \<and> scrape (h\<lparr>Torrents_Get := torrents, Peers_GetN := peers\<rparr>) RequestURI c s
        = scrape h RequestURI c s"
  using assms by (simp add: scrape_def)

text \<open>
  With stores that count their calls, the counter is still 0 after the empty query.
\<close>

theorem scrape_empty_rejected_witness:
  "scrape (example_handler Suc []) ''/scrape'' [] 0 = ([Failure ''Malformed request''], 0)"
  using scrape_empty_rejected [of "example_handler Suc []" "[]" 0 "[]" 0
      "''/scrape''" "\<lparr>InfoHashes = []\<rparr>"]
  by (simp add: example_handler_def)

subsection \<open>The response dictionary\<close>









end
